theory Spec2Isabelle
  imports Main
begin

section \<open>Key backends (pkg/backends/backend.go)\<close>

text \<open>
  Go strings are byte sequences and \<open>len\<close> counts bytes; they are modelled by
  \<^typ>\<open>string\<close>, whose characters are bytes. A value of Go type \<open>[]byte\<close> is
  modelled by the same type. Pointers to keys, tokens and backends are modelled by the
  values they point to; the receivers, the token and the keys in a store are not \<open>nil\<close>.
\<close>

subsection \<open>Values of type \<open>interface{}\<close>\<close>

text \<open>
  A decoded JSON value, as \<open>encoding/json\<close> stores it in an \<open>interface{}\<close>. The code
  only asks whether a value is a string, so a number is kept as an integer.
\<close>

datatype json =
    JNull
  | JBool bool
  | JNumber int
  | JString string
  | JArray "json list"
  | JObject "(string \<times> json) list"

record rsa_PublicKey =
  modulus_N :: int
  exponent_E :: int

record rsa_PrivateKey =
  PublicKey :: rsa_PublicKey
  exponent_D :: int
  prime_factors :: "int list"

text \<open>
  The dynamic types of the key material that the backends store and hand out:
  \<open>[]byte\<close>, \<open>*rsa.PrivateKey\<close>, \<open>*rsa.PublicKey\<close>, and anything else.
\<close>

datatype key_value =
    Bytes string
  | RSAPrivateKeyPtr rsa_PrivateKey
  | RSAPublicKeyPtr rsa_PublicKey
  | OtherValue string

subsection \<open>Tokens\<close>

text \<open>
  The dynamic type of \<open>token.Method\<close>: the signing methods of the JWT library, each
  with its algorithm name, or no method at all. \<open>*SigningMethodRSAPSS\<close> is a type of
  its own, so the type assertion to \<open>*SigningMethodRSA\<close> fails on it.
\<close>

datatype SigningMethod =
    SigningMethodHMAC string
  | SigningMethodRSA string
  | SigningMethodRSAPSS string
  | SigningMethodECDSA string
  | SigningMethodNone
  | NilMethod

record Token =
  Method :: SigningMethod
  Header :: "string \<rightharpoonup> json"

subsection \<open>Errors\<close>

text \<open>
  The error values of \<open>pkg/errors\<close> that the backends return, with the arguments
  given to \<open>WithArgs\<close>; \<open>ExternalError\<close> is an error of a library call.
\<close>

datatype error =
    ErrInvalidSecretLength
  | ErrUnexpectedSigningMethod string "json option"
  | ErrUnexpectedKID
  | ErrNoRSAKeyFound
  | ErrBackendOauthJwksResponseKeysNotFound
  | ErrBackendOauthJwksKeysParseFailed error
  | ErrBackendOauthJwksKeysNotFound
  | ErrBackendOauthJwksInvalidKey error
  | ExternalError string

subsection \<open>The secret key backend\<close>

definition defaultKeyID :: string where
  "defaultKeyID = ''0''"

record SecretKeyTokenBackend =
  secret :: string

definition NewSecretKeyTokenBackend :: "string \<Rightarrow> error + SecretKeyTokenBackend" where
  "NewSecretKeyTokenBackend s =
     (if length s < 16 then Inl ErrInvalidSecretLength
      else Inr \<lparr>secret = s\<rparr>)"

fun is_SigningMethodHMAC :: "SigningMethod \<Rightarrow> bool" where
  "is_SigningMethodHMAC (SigningMethodHMAC _) = True"
| "is_SigningMethodHMAC _ = False"

fun is_SigningMethodRSA :: "SigningMethod \<Rightarrow> bool" where
  "is_SigningMethodRSA (SigningMethodRSA _) = True"
| "is_SigningMethodRSA _ = False"

definition SecretKeyTokenBackend_ProvideKey ::
  "SecretKeyTokenBackend \<Rightarrow> Token \<Rightarrow> error + key_value" where
  "SecretKeyTokenBackend_ProvideKey b token =
     (if \<not> is_SigningMethodHMAC (Method token)
      then Inl (ErrUnexpectedSigningMethod ''HS'' (Header token ''alg''))
      else Inr (Bytes (secret b)))"

subsection \<open>The RSA key backend\<close>

record RSAKeyTokenBackend =
  secrets :: "string \<rightharpoonup> key_value"

definition NewRSAKeyTokenBackend :: "(string \<rightharpoonup> key_value) \<Rightarrow> RSAKeyTokenBackend" where
  "NewRSAKeyTokenBackend k = \<lparr>secrets = k\<rparr>"

text \<open>
  The type switch on a stored value: a private key yields the address of its public
  part, a public key yields itself, any other value falls out of the switch.
\<close>

fun rsa_key_switch :: "key_value \<Rightarrow> key_value option" where
  "rsa_key_switch (RSAPrivateKeyPtr key) = Some (RSAPublicKeyPtr (PublicKey key))"
| "rsa_key_switch (RSAPublicKeyPtr key) = Some (RSAPublicKeyPtr key)"
| "rsa_key_switch _ = None"

definition RSAKeyTokenBackend_ProvideKey ::
  "RSAKeyTokenBackend \<Rightarrow> Token \<Rightarrow> error + key_value" where
  "RSAKeyTokenBackend_ProvideKey b token =
     (if \<not> is_SigningMethodRSA (Method token)
      then Inl (ErrUnexpectedSigningMethod ''RS'' (Header token ''alg''))
      else
        (case Header token ''kid'' of
           Some (JString kid) \<Rightarrow>
             (case secrets b kid of
                Some val \<Rightarrow>
                  (case rsa_key_switch val of
                     Some key \<Rightarrow> Inr key
                   | None \<Rightarrow> Inl ErrUnexpectedKID)
              | None \<Rightarrow> Inl ErrUnexpectedKID)
         | _ \<Rightarrow>
             (case secrets b defaultKeyID of
                Some val \<Rightarrow>
                  (case rsa_key_switch val of
                     Some key \<Rightarrow> Inr key
                   | None \<Rightarrow> Inl ErrNoRSAKeyFound)
              | None \<Rightarrow> Inl ErrNoRSAKeyFound)))"

subsection \<open>Importing a published key set\<close>

text \<open>
  \<open>FetchKeysURL\<close> calls the HTTP client, the JSON codec and the methods of
  \<open>oauth2.JwksKey\<close>, which belong to other packages. They are parameters of the model:
  \<open>'r\<close> is the type of an HTTP response, \<open>'k\<close> the type \<open>*oauth2.JwksKey\<close>.
  \<open>json_Unmarshal_map\<close> decodes the response body into \<open>map[string]interface{}\<close>,
  \<open>json_Unmarshal_keys\<close> decodes the re-encoded \<open>keys\<close> field into a slice of keys.
\<close>

record ('r, 'k) jwks_env =
  http_Get :: "string \<Rightarrow> error + 'r"
  ioutil_ReadAll :: "'r \<Rightarrow> error + string"
  json_Unmarshal_map :: "string \<Rightarrow> error + (string \<rightharpoonup> json)"
  json_Marshal :: "json \<Rightarrow> error + string"
  json_Unmarshal_keys :: "string \<Rightarrow> error + 'k list"
  Validate :: "'k \<Rightarrow> error option"
  KeyID :: "'k \<Rightarrow> string"
  GetPublicKey :: "'k \<Rightarrow> key_value"

text \<open>
  The loop \<open>for _, k := range keys\<close>. The local map \<open>secrets\<close> of the source is
  called \<open>secretsMap\<close> here, \<open>secrets\<close> being the field of the RSA backend.
\<close>

fun range_keys ::
  "('r, 'k) jwks_env \<Rightarrow> 'k list \<Rightarrow> (string \<rightharpoonup> key_value) \<Rightarrow> error + (string \<rightharpoonup> key_value)" where
  "range_keys env [] secretsMap = Inr secretsMap"
| "range_keys env (k # keys) secretsMap =
     (case Validate env k of
        Some err \<Rightarrow> Inl (ErrBackendOauthJwksInvalidKey err)
      | None \<Rightarrow> range_keys env keys (secretsMap(KeyID env k \<mapsto> GetPublicKey env k)))"

definition FetchKeysURL ::
  "('r, 'k) jwks_env \<Rightarrow> string \<Rightarrow> error + (string \<rightharpoonup> key_value)" where
  "FetchKeysURL env jwks_uri =
     (let secretsMap = Map.empty in
      case http_Get env jwks_uri of
        Inl err \<Rightarrow> Inl err
      | Inr resp \<Rightarrow>
     (case ioutil_ReadAll env resp of
        Inl err \<Rightarrow> Inl err
      | Inr respBody \<Rightarrow>
     (case json_Unmarshal_map env respBody of
        Inl err \<Rightarrow> Inl err
      | Inr data \<Rightarrow>
     (case data ''keys'' of
        None \<Rightarrow> Inl ErrBackendOauthJwksResponseKeysNotFound
      | Some keys_field \<Rightarrow>
     (case json_Marshal env keys_field of
        Inl err \<Rightarrow> Inl (ErrBackendOauthJwksKeysParseFailed err)
      | Inr jwksJSON \<Rightarrow>
     (case json_Unmarshal_keys env jwksJSON of
        Inl err \<Rightarrow> Inl err
      | Inr keys \<Rightarrow>
          if length keys < 1 then Inl ErrBackendOauthJwksKeysNotFound
          else range_keys env keys secretsMap))))))"

section \<open>Token validator options\<close>

text \<open>
  \<open>Clone\<close> allocates a new options object and a new map, so its model carries an
  explicit heap. Objects of one type live in a list and an address is an index into it;
  allocation appends, which makes every new address different from all allocated ones.
  The fields \<open>Metadata\<close>, \<open>Replacer\<close> and \<open>Logger\<close> hold references, \<open>None\<close> for
  \<open>nil\<close>. Only maps and options objects are stored; loggers and replacers are never
  read, so their addresses stay uninterpreted.
\<close>

type_synonym addr = nat

record TokenValidatorOptions =
  ValidateSourceAddress :: bool
  SourceAddress :: string
  ValidateBearerHeader :: bool
  ValidateMethodPath :: bool
  ValidateAccessListPathClaim :: bool
  ValidateAllowMatchAll :: bool
  Metadata :: "addr option"
  Replacer :: "addr option"
  Logger :: "addr option"

record heap =
  options_heap :: "TokenValidatorOptions list"
  maps_heap :: "(string \<rightharpoonup> json) list"

datatype panic = NilPointerDereference | InvalidAddress

text \<open>\<open>make(map[string]interface{})\<close>: a new, empty map.\<close>

definition make_map :: "heap \<Rightarrow> addr \<times> heap" where
  "make_map h = (length (maps_heap h), h\<lparr>maps_heap := maps_heap h @ [Map.empty]\<rparr>)"

text \<open>\<open>&TokenValidatorOptions{...}\<close>: a new object holding the given struct.\<close>

definition new_options :: "TokenValidatorOptions \<Rightarrow> heap \<Rightarrow> addr \<times> heap" where
  "new_options v h = (length (options_heap h), h\<lparr>options_heap := options_heap h @ [v]\<rparr>)"

text \<open>The assignment \<open>m[k] = v\<close> to the map at address \<open>m\<close>.\<close>

definition map_assign :: "addr \<Rightarrow> string \<Rightarrow> json \<Rightarrow> heap \<Rightarrow> heap" where
  "map_assign m k v h = h\<lparr>maps_heap := (maps_heap h)[m := (maps_heap h ! m)(k \<mapsto> v)]\<rparr>"

text \<open>The struct that \<open>NewTokenValidatorOptions\<close> builds: every field is its zero value.\<close>

definition NewTokenValidatorOptions_struct :: TokenValidatorOptions where
  "NewTokenValidatorOptions_struct =
     \<lparr>ValidateSourceAddress = False,
      SourceAddress = [],
      ValidateBearerHeader = False,
      ValidateMethodPath = False,
      ValidateAccessListPathClaim = False,
      ValidateAllowMatchAll = False,
      Metadata = None,
      Replacer = None,
      Logger = None\<rparr>"

definition NewTokenValidatorOptions :: "heap \<Rightarrow> addr \<times> heap" where
  "NewTokenValidatorOptions h = new_options NewTokenValidatorOptions_struct h"

text \<open>
  \<open>Clone\<close> on the receiver \<open>opts\<close>. Reading a field through \<open>nil\<close> panics. An address
  that was never allocated cannot occur in Go; the model answers \<open>InvalidAddress\<close>.
\<close>

definition Clone :: "addr option \<Rightarrow> heap \<Rightarrow> panic + (addr \<times> heap)" where
  "Clone opts h =
     (case opts of
        None \<Rightarrow> Inl NilPointerDereference
      | Some a \<Rightarrow>
          if \<not> a < length (options_heap h) then Inl InvalidAddress
          else
            (let this = options_heap h ! a;
                 (m, h1) = make_map h;
                 clonedOpts =
                   \<lparr>ValidateSourceAddress = ValidateSourceAddress this,
                    SourceAddress = [],
                    ValidateBearerHeader = ValidateBearerHeader this,
                    ValidateMethodPath = ValidateMethodPath this,
                    ValidateAccessListPathClaim = ValidateAccessListPathClaim this,
                    ValidateAllowMatchAll = ValidateAllowMatchAll this,
                    Metadata = Some m,
                    Replacer = None,
                    Logger = Logger this\<rparr>
             in Inr (new_options clonedOpts h1)))"

section \<open>The Caddyfile parser of the \<open>jwt\<close> directive\<close>

subsection \<open>Access list entries and the provider under construction\<close>

record AccessListEntry =
  Action :: string
  Values :: "string list"
  Claim :: string
  Methods :: "string list"
  Path :: string

text \<open>
  The fields of \<open>AuthProvider\<close> that the parser assigns. \<open>'c\<close> is the type
  \<open>*CommonTokenConfig\<close>. The options object is owned by the provider alone, so the
  field holds the struct itself, \<open>None\<close> for \<open>nil\<close>.
\<close>

record 'c AuthProvider =
  PrimaryInstance :: bool
  Context :: string
  TrustedTokens :: "'c list"
  AccessList :: "AccessListEntry list"
  AuthURLPath :: string
  AuthRedirectQueryDisabled :: bool
  ValidateMethodPath :: bool
  ValidateAccessListPathClaim :: bool
  TokenValidatorOptions :: "TokenValidatorOptions option"
  PassClaimsWithHeaders :: bool
  ForbiddenURL :: string

text \<open>
  An error of the parser is a message, built by \<open>fmt.Errorf\<close> or by the helper's
  \<open>Errf\<close>, which adds the position in the file.
\<close>

datatype parse_error = Errorf string | Errf string

text \<open>
  The methods of \<open>AccessListEntry\<close> and the JSON round trip that turns the collected
  properties of a trusted token into a \<open>CommonTokenConfig\<close> are parameters of the parser.
  A method that returns an error is modelled by a function into a sum, the error being
  its message.
\<close>

record 'c acl_env =
  NewAccessListEntry :: AccessListEntry
  Allow :: "AccessListEntry \<Rightarrow> AccessListEntry"
  Deny :: "AccessListEntry \<Rightarrow> AccessListEntry"
  SetClaim :: "AccessListEntry \<Rightarrow> string \<Rightarrow> string + AccessListEntry"
  AddValue :: "AccessListEntry \<Rightarrow> string \<Rightarrow> string + AccessListEntry"
  AddMethod :: "AccessListEntry \<Rightarrow> string \<Rightarrow> string + AccessListEntry"
  SetPath :: "AccessListEntry \<Rightarrow> string \<Rightarrow> string + AccessListEntry"
  json_TokenConfig :: "(string \<rightharpoonup> string) \<Rightarrow> string + 'c"

subsection \<open>The input\<close>

text \<open>
  The helper hands the parser a sequence of segments (one for each successful
  \<open>h.Next()\<close>), each a sequence of directives (one for each successful
  \<open>h.NextBlock(nesting)\<close>). A directive has its name (\<open>h.Val()\<close>), the arguments that
  follow it on its line, and the nested block that \<open>trusted_tokens\<close> reads: a list of
  backends, each with its name and its lines, a line being a key and the value that
  \<open>h.NextArg()\<close> finds, if any. \<open>h.RemainingArgs()\<close> yields all the arguments of the
  directive; \<open>h.NextArg()\<close> followed by \<open>h.Val()\<close> yields the first, if there is one.
\<close>

record directive =
  directiveName :: string
  directiveArgs :: "string list"
  directiveBlock :: "(string \<times> (string \<times> string option) list) list"

definition isEnabledArg :: "string \<Rightarrow> bool" where
  "isEnabledArg s = (if s = ''yes'' \<or> s = ''true'' \<or> s = ''on'' then True else False)"

definition isSwitchArg :: "string \<Rightarrow> bool" where
  "isSwitchArg s =
     (if s = ''yes'' \<or> s = ''true'' \<or> s = ''on'' then True
      else if s = ''no'' \<or> s = ''false'' \<or> s = ''off'' then True
      else False)"

fun strings_Join :: "string list \<Rightarrow> string \<Rightarrow> string" where
  "strings_Join [] sep = []"
| "strings_Join [a] sep = a"
| "strings_Join (a # b # elems) sep = a @ sep @ strings_Join (b # elems) sep"

subsection \<open>The loops\<close>

text \<open>
  The loop \<open>for i, arg := range args\<close> of an \<open>allow\<close> or \<open>deny\<close> directive. Its
  state is the entry, the mode and the provider (the loop sets \<open>p.ValidateMethodPath\<close>).
  \<open>range_args_body\<close> is one pass through the body of the loop: it ends in an error, with
  which the parser returns, or in the state for the next pass.
\<close>

definition range_args_body ::
  "'c acl_env \<Rightarrow> string \<Rightarrow> nat \<Rightarrow> string \<Rightarrow>
   AccessListEntry \<times> string \<times> 'c AuthProvider \<Rightarrow>
   parse_error + (AccessListEntry \<times> string \<times> 'c AuthProvider)" where
  "range_args_body env rootDirective i arg =
     (\<lambda>(entry, mode, p).
      if i = 0 then
        (case SetClaim env entry arg of
           Inl err \<Rightarrow>
             Inl (Errorf (rootDirective @ '' argument claim key '' @ arg @ '' error: '' @ err))
         | Inr entry' \<Rightarrow> Inr (entry', mode, p))
      else if arg = ''with'' then Inr (entry, ''method'', p)
      else if arg = ''to'' then Inr (entry, ''path'', p)
      else if mode = ''roles'' then
        (case AddValue env entry arg of
           Inl err \<Rightarrow>
             Inl (Errorf (rootDirective @ '' argument claim value '' @ arg @ '' error: '' @ err))
         | Inr entry' \<Rightarrow> Inr (entry', mode, p))
      else if mode = ''method'' then
        (case AddMethod env entry arg of
           Inl err \<Rightarrow>
             Inl (Errorf (rootDirective @ '' argument http method '' @ arg @ '' error: '' @ err))
         | Inr entry' \<Rightarrow> Inr (entry', mode, p\<lparr>ValidateMethodPath := True\<rparr>))
      else if mode = ''path'' then
        (if Path entry \<noteq> [] then
           Inl (Errorf (rootDirective @ '' argument http path '' @ arg @ '' is already set''))
         else
           (case SetPath env entry arg of
              Inl err \<Rightarrow>
                Inl (Errorf (rootDirective @ '' argument http path '' @ arg @ '' error: '' @ err))
            | Inr entry' \<Rightarrow> Inr (entry', mode, p\<lparr>ValidateMethodPath := True\<rparr>)))
      else Inr (entry, mode, p))"

fun range_args ::
  "'c acl_env \<Rightarrow> string \<Rightarrow> nat \<Rightarrow> string list \<Rightarrow>
   AccessListEntry \<times> string \<times> 'c AuthProvider \<Rightarrow>
   parse_error + (AccessListEntry \<times> string \<times> 'c AuthProvider)" where
  "range_args env rootDirective i [] st = Inr st"
| "range_args env rootDirective i (arg # rest) st =
     (case range_args_body env rootDirective i arg st of
        Inl e \<Rightarrow> Inl e
      | Inr st' \<Rightarrow> range_args env rootDirective (Suc i) rest st')"

text \<open>The lines of one backend of \<open>trusted_tokens\<close>, collected in \<open>tokenConfigProps\<close>.\<close>

fun range_backend_args ::
  "string \<Rightarrow> (string \<times> string option) list \<Rightarrow> (string \<rightharpoonup> string) \<Rightarrow>
   parse_error + (string \<rightharpoonup> string)" where
  "range_backend_args subDirective [] tokenConfigProps = Inr tokenConfigProps"
| "range_backend_args subDirective ((backendArg, v) # rest) tokenConfigProps =
     (case v of
        None \<Rightarrow>
          Inl (Errf (''auth backend '' @ subDirective @ '' subdirective '' @ backendArg @
                     '' has no value''))
      | Some val \<Rightarrow>
          range_backend_args subDirective rest (tokenConfigProps(backendArg \<mapsto> val)))"

fun range_trusted_tokens ::
  "'c acl_env \<Rightarrow> (string \<times> (string \<times> string option) list) list \<Rightarrow> 'c AuthProvider \<Rightarrow>
   parse_error + 'c AuthProvider" where
  "range_trusted_tokens env [] p = Inr p"
| "range_trusted_tokens env ((subDirective, backendLines) # rest) p =
     (case range_backend_args subDirective backendLines Map.empty of
        Inl e \<Rightarrow> Inl e
      | Inr tokenConfigProps \<Rightarrow>
          (case json_TokenConfig env tokenConfigProps of
             Inl err \<Rightarrow>
               Inl (Errf (''auth backend '' @ subDirective @
                          '' subdirective failed to compile to JSON: '' @ err))
           | Inr tokenConfig \<Rightarrow>
               range_trusted_tokens env rest (p\<lparr>TrustedTokens := TrustedTokens p @ [tokenConfig]\<rparr>)))"

subsection \<open>One directive\<close>

text \<open>
  The body of the inner loop: the switch on \<open>rootDirective\<close>. The state is the
  provider \<open>p\<close> and the flag \<open>defaultDenyACL\<close>.
\<close>

definition parse_directive ::
  "'c acl_env \<Rightarrow> directive \<Rightarrow> 'c AuthProvider \<times> bool \<Rightarrow>
   parse_error + ('c AuthProvider \<times> bool)" where
  "parse_directive env d st =
     (let rootDirective = directiveName d;
          args = directiveArgs d;
          (p, defaultDenyACL) = st
      in
      if rootDirective = ''primary'' then
        (if length args = 0 then Inl (Errorf (rootDirective @ '' argument has no value''))
         else if \<not> isSwitchArg (args ! 0) then
           Inl (Errorf (rootDirective @ '' argument value of '' @ args ! 0 @ '' is unsupported''))
         else if isEnabledArg (args ! 0) then Inr (p\<lparr>PrimaryInstance := True\<rparr>, defaultDenyACL)
         else Inr (p, defaultDenyACL))
      else if rootDirective = ''context'' then
        (if length args = 0 then Inl (Errorf (rootDirective @ '' argument has no value''))
         else if length args \<noteq> 1 then
           Inl (Errorf (rootDirective @ '' argument value of '' @ args ! 0 @ '' is unsupported''))
         else Inr (p\<lparr>Context := args ! 0\<rparr>, defaultDenyACL))
      else if rootDirective = ''auth_url'' then
        (if length args = 0 then Inl (Errorf (rootDirective @ '' argument has no value''))
         else if length args \<noteq> 1 then
           Inl (Errorf (rootDirective @ '' argument value of '' @ args ! 0 @ '' is unsupported''))
         else Inr (p\<lparr>AuthURLPath := args ! 0\<rparr>, defaultDenyACL))
      else if rootDirective = ''trusted_tokens'' then
        (case range_trusted_tokens env (directiveBlock d) p of
           Inl e \<Rightarrow> Inl e
         | Inr p' \<Rightarrow> Inr (p', defaultDenyACL))
      else if rootDirective = ''allow'' \<or> rootDirective = ''deny'' then
        (if length args = 0 then Inl (Errorf (rootDirective @ '' argument has no value''))
         else if length args = 1 then
           Inl (Errorf (rootDirective @ '' argument has insufficient values''))
         else
           (let entry0 = NewAccessListEntry env;
                entry = (if rootDirective = ''allow'' then Allow env entry0 else Deny env entry0);
                mode = ''roles''
            in case range_args env rootDirective 0 args (entry, mode, p) of
                 Inl e \<Rightarrow> Inl e
               | Inr (entry', mode', p') \<Rightarrow>
                   Inr (p'\<lparr>AccessList := AccessList p' @ [entry']\<rparr>, defaultDenyACL)))
      else if rootDirective = ''disable'' then
        (if length args = 0 then Inl (Errorf (rootDirective @ '' argument has no value''))
         else if args ! 0 = ''auth_redirect_query'' then
           Inr (p\<lparr>AuthRedirectQueryDisabled := True\<rparr>, defaultDenyACL)
         else Inl (Errorf (rootDirective @ '' argument '' @ args ! 0 @ '' is unsupported'')))
      else if rootDirective = ''validate'' then
        (if length args = 0 then Inl (Errorf (rootDirective @ '' argument has no value''))
         else if args ! 0 = ''path_acl'' then
           Inr (p\<lparr>ValidateAccessListPathClaim := True, ValidateMethodPath := True\<rparr>,
                defaultDenyACL)
         else Inl (Errorf (rootDirective @ '' argument '' @ args ! 0 @ '' is unsupported'')))
      else if rootDirective = ''option'' then
        (if length args = 0 then Inl (Errorf (rootDirective @ '' argument has no value''))
         else
           (let opts = (case TokenValidatorOptions p of
                          None \<Rightarrow> NewTokenValidatorOptions_struct
                        | Some v \<Rightarrow> v)
            in if args ! 0 = ''validate_bearer_header'' then
                 Inr (p\<lparr>TokenValidatorOptions := Some (opts\<lparr>ValidateBearerHeader := True\<rparr>)\<rparr>,
                      defaultDenyACL)
               else Inl (Errorf (rootDirective @ '' argument '' @ args ! 0 @ '' is unsupported''))))
      else if rootDirective = ''enable'' then
        (let joined = strings_Join args '' ''
         in if joined = ''claim headers'' then
              Inr (p\<lparr>PassClaimsWithHeaders := True\<rparr>, defaultDenyACL)
            else Inl (Errf (''unsupported directive for '' @ rootDirective @ '': '' @ joined)))
      else if rootDirective = ''default'' then
        (case args of
           [] \<Rightarrow> Inl (Errf (rootDirective @ '' argument has no value''))
         | val # _ \<Rightarrow>
             if val = ''allow'' then Inr (p, False) else Inr (p, defaultDenyACL))
      else if rootDirective = ''forbidden'' then
        (case args of
           [] \<Rightarrow> Inl (Errf (rootDirective @ '' argument has no value''))
         | val # _ \<Rightarrow> Inr (p\<lparr>ForbiddenURL := val\<rparr>, defaultDenyACL))
      else Inl (Errf (''unsupported root directive: '' @ rootDirective)))"

text \<open>The inner loop over the directives of a segment, and the outer loop over the segments.\<close>

fun range_block ::
  "'c acl_env \<Rightarrow> directive list \<Rightarrow> 'c AuthProvider \<times> bool \<Rightarrow>
   parse_error + ('c AuthProvider \<times> bool)" where
  "range_block env [] st = Inr st"
| "range_block env (d # ds) st =
     (case parse_directive env d st of
        Inl e \<Rightarrow> Inl e
      | Inr st' \<Rightarrow> range_block env ds st')"

fun range_segments ::
  "'c acl_env \<Rightarrow> directive list list \<Rightarrow> 'c AuthProvider \<times> bool \<Rightarrow>
   parse_error + ('c AuthProvider \<times> bool)" where
  "range_segments env [] st = Inr st"
| "range_segments env (seg # segs) st =
     (case range_block env seg st of
        Inl e \<Rightarrow> Inl e
      | Inr st' \<Rightarrow> range_segments env segs st')"

subsection \<open>The parser\<close>

definition initial_AuthProvider :: "'c AuthProvider" where
  "initial_AuthProvider =
     \<lparr>PrimaryInstance = False,
      Context = ''default'',
      TrustedTokens = [],
      AccessList = [],
      AuthURLPath = [],
      AuthRedirectQueryDisabled = False,
      ValidateMethodPath = False,
      ValidateAccessListPathClaim = False,
      TokenValidatorOptions = None,
      PassClaimsWithHeaders = False,
      ForbiddenURL = []\<rparr>"

text \<open>The entry that the parser appends when the default is to allow.\<close>

definition allow_any_entry :: AccessListEntry where
  "allow_any_entry =
     \<lparr>Action = ''allow'', Values = [''any''], Claim = ''roles'', Methods = [], Path = []\<rparr>"

text \<open>
  The parser returns the provider wrapped as the JSON configuration of the
  authentication handler; the model returns the provider itself.
\<close>

definition parseCaddyfileTokenValidator ::
  "'c acl_env \<Rightarrow> directive list list \<Rightarrow> parse_error + 'c AuthProvider" where
  "parseCaddyfileTokenValidator env h =
     (let p = initial_AuthProvider;
          defaultDenyACL = True
      in case range_segments env h (p, defaultDenyACL) of
           Inl e \<Rightarrow> Inl e
         | Inr (p', defaultDenyACL') \<Rightarrow>
             if Context p' = [] then Inl (Errf ''context directive must not be empty'')
             else if \<not> defaultDenyACL' then
               Inr (p'\<lparr>AccessList := AccessList p' @ [allow_any_entry]\<rparr>)
             else Inr p')"

subsection \<open>The methods of an access list entry\<close>

text \<open>
  Modelled from the spec: the constructor and the setters of \<open>AccessListEntry\<close>, which
  are declared in another file of the package. The spec gives a rule the fields \<open>action\<close>
  (allow or deny), \<open>claim\<close>, \<open>values\<close>, \<open>methods\<close> and \<open>path\<close>, and counts an empty
  claim as a misconfiguration. So a new entry is empty, \<open>Allow\<close> and \<open>Deny\<close> set the
  action, \<open>SetClaim\<close> refuses the empty claim and stores any other, \<open>AddValue\<close> and
  \<open>AddMethod\<close> append, and \<open>SetPath\<close> stores the path.
\<close>

definition spec_NewAccessListEntry :: AccessListEntry where
  "spec_NewAccessListEntry =
     \<lparr>Action = [], Values = [], Claim = [], Methods = [], Path = []\<rparr>"

definition spec_Allow :: "AccessListEntry \<Rightarrow> AccessListEntry" where
  "spec_Allow acl = acl\<lparr>Action := ''allow''\<rparr>"

definition spec_Deny :: "AccessListEntry \<Rightarrow> AccessListEntry" where
  "spec_Deny acl = acl\<lparr>Action := ''deny''\<rparr>"

definition spec_SetClaim :: "AccessListEntry \<Rightarrow> string \<Rightarrow> string + AccessListEntry" where
  "spec_SetClaim acl s = (if s = [] then Inl ''empty claim'' else Inr (acl\<lparr>Claim := s\<rparr>))"

definition spec_AddValue :: "AccessListEntry \<Rightarrow> string \<Rightarrow> string + AccessListEntry" where
  "spec_AddValue acl s = Inr (acl\<lparr>Values := Values acl @ [s]\<rparr>)"

definition spec_AddMethod :: "AccessListEntry \<Rightarrow> string \<Rightarrow> string + AccessListEntry" where
  "spec_AddMethod acl s = Inr (acl\<lparr>Methods := Methods acl @ [s]\<rparr>)"

definition spec_SetPath :: "AccessListEntry \<Rightarrow> string \<Rightarrow> string + AccessListEntry" where
  "spec_SetPath acl s = Inr (acl\<lparr>Path := s\<rparr>)"

text \<open>
  Modelled from the spec: the environment of the parser with these methods. A trusted
  token keeps the properties collected for it (the spec describes a trusted key backend
  as a descriptor of a secret or a key with an optional issuer label).
\<close>

definition spec_env :: "(string \<rightharpoonup> string) acl_env" where
  "spec_env =
     \<lparr>NewAccessListEntry = spec_NewAccessListEntry,
      Allow = spec_Allow,
      Deny = spec_Deny,
      SetClaim = spec_SetClaim,
      AddValue = spec_AddValue,
      AddMethod = spec_AddMethod,
      SetPath = spec_SetPath,
      json_TokenConfig = (\<lambda>props. Inr props)\<rparr>"

subsection \<open>What the input asks for\<close>





section \<open>Sample inputs\<close>

text \<open>Concrete keys, stores, tokens, heaps and environments, used to run the definitions.\<close>

definition sample_default_key :: rsa_PublicKey where
  "sample_default_key = \<lparr>modulus_N = 3127, exponent_E = 3\<rparr>"

definition sample_private_key :: rsa_PrivateKey where
  "sample_private_key =
     \<lparr>PublicKey = \<lparr>modulus_N = 3233, exponent_E = 17\<rparr>,
      exponent_D = 2753,
      prime_factors = [61, 53]\<rparr>"

definition sample_backend :: RSAKeyTokenBackend where
  "sample_backend =
     NewRSAKeyTokenBackend
       [''0'' \<mapsto> RSAPublicKeyPtr sample_default_key,
        ''k1'' \<mapsto> RSAPrivateKeyPtr sample_private_key,
        ''k2'' \<mapsto> OtherValue ''ecdsa'']"

definition empty_backend :: RSAKeyTokenBackend where
  "empty_backend = NewRSAKeyTokenBackend Map.empty"

definition rs256_token_with_kid :: "json \<Rightarrow> Token" where
  "rs256_token_with_kid kid =
     \<lparr>Method = SigningMethodRSA ''RS256'',
      Header = [''alg'' \<mapsto> JString ''RS256'', ''typ'' \<mapsto> JString ''JWT'', ''kid'' \<mapsto> kid]\<rparr>"

definition rs256_token_without_kid :: Token where
  "rs256_token_without_kid =
     \<lparr>Method = SigningMethodRSA ''RS256'',
      Header = [''alg'' \<mapsto> JString ''RS256'', ''typ'' \<mapsto> JString ''JWT'']\<rparr>"

definition hs256_token_with_kid :: "json \<Rightarrow> Token" where
  "hs256_token_with_kid kid =
     \<lparr>Method = SigningMethodHMAC ''HS256'',
      Header = [''alg'' \<mapsto> JString ''HS256'', ''typ'' \<mapsto> JString ''JWT'', ''kid'' \<mapsto> kid]\<rparr>"

definition sample_secret_backend :: SecretKeyTokenBackend where
  "sample_secret_backend = \<lparr>secret = ''0123456789abcdef''\<rparr>"

text \<open>
  A key set service that answers every address with the address itself as the body. The
  body \<open>no-keys\<close> decodes to an object without the field \<open>keys\<close>; any other body
  decodes to an object whose field \<open>keys\<close> names the list of keys to deliver. A key is
  its identifier and whether it is valid.
\<close>

definition sample_jwks_env :: "(string, string \<times> bool) jwks_env" where
  "sample_jwks_env =
     \<lparr>http_Get = (\<lambda>uri. Inr uri),
      ioutil_ReadAll = (\<lambda>resp. Inr resp),
      json_Unmarshal_map =
        (\<lambda>body. if body = ''no-keys'' then Inr Map.empty else Inr [''keys'' \<mapsto> JString body]),
      json_Marshal =
        (\<lambda>v. case v of JString t \<Rightarrow> Inr t | _ \<Rightarrow> Inl (ExternalError ''unsupported value'')),
      json_Unmarshal_keys =
        (\<lambda>t. if t = ''empty'' then Inr []
             else if t = ''two-valid-one-malformed''
               then Inr [(''a'', True), (''b'', True), ([], False)]
             else Inr [(''a'', True), (''b'', True)]),
      Validate = (\<lambda>k. if snd k then None else Some (ExternalError ''malformed key'')),
      KeyID = fst,
      GetPublicKey = (\<lambda>k. RSAPublicKeyPtr sample_default_key)\<rparr>"

text \<open>A heap with one options object, whose metadata map has an entry.\<close>

definition sample_heap :: heap where
  "sample_heap =
     \<lparr>options_heap =
        [\<lparr>ValidateSourceAddress = True,
          SourceAddress = ''10.0.0.1'',
          ValidateBearerHeader = True,
          ValidateMethodPath = False,
          ValidateAccessListPathClaim = True,
          ValidateAllowMatchAll = False,
          Metadata = Some 0,
          Replacer = None,
          Logger = Some 5\<rparr>],
      maps_heap = [[''user'' \<mapsto> JString ''alice'']]\<rparr>"



definition sample_rule_without_values :: directive where
  "sample_rule_without_values =
     \<lparr>directiveName = ''allow'', directiveArgs = [''roles'', ''with'', ''get''],
      directiveBlock = []\<rparr>"


section \<open>Properties of the key backends\<close>

text \<open>
  Claim C10. Constructing a secret key backend enforces a minimum secret length: a string
  shorter than 16 bytes is refused with the invalid-secret-length error and no backend,
  and a string of 16 bytes or more gives a backend whose secret is exactly the input.
\<close>

theorem NewSecretKeyTokenBackend_minimum_length:
  "(length s < 16 \<longrightarrow> NewSecretKeyTokenBackend s = Inl ErrInvalidSecretLength) \<and>
   (16 \<le> length s \<longrightarrow> NewSecretKeyTokenBackend s = Inr \<lparr>secret = s\<rparr>)"
  by (simp add: NewSecretKeyTokenBackend_def)

theorem NewSecretKeyTokenBackend_minimum_length_witness:
  "length ''fifteen_bytes__'' < 16 \<and>
   NewSecretKeyTokenBackend ''fifteen_bytes__'' = Inl ErrInvalidSecretLength \<and>
   16 \<le> length ''sixteen_bytes___'' \<and>
   NewSecretKeyTokenBackend ''sixteen_bytes___'' = Inr \<lparr>secret = ''sixteen_bytes___''\<rparr>"
  using NewSecretKeyTokenBackend_minimum_length [of "''fifteen_bytes__''"]
        NewSecretKeyTokenBackend_minimum_length [of "''sixteen_bytes___''"]
  by simp

text \<open>
  Claim C2. A token whose signing method is not of the backend's family is refused with
  the unexpected-signing-method error, whatever the backend holds: the secret key backend
  refuses every method that is not HMAC, the RSA backend every method that is not RSA.
  In particular the RSA backend answers an HMAC token with that error. The error does not
  mention the backend, so no key material takes part in it.
\<close>

theorem ProvideKey_rejects_other_family:
  "(\<not> is_SigningMethodHMAC (Method token) \<longrightarrow>
      SecretKeyTokenBackend_ProvideKey sb token =
        Inl (ErrUnexpectedSigningMethod ''HS'' (Header token ''alg''))) \<and>
   (\<not> is_SigningMethodRSA (Method token) \<longrightarrow>
      RSAKeyTokenBackend_ProvideKey rb token =
        Inl (ErrUnexpectedSigningMethod ''RS'' (Header token ''alg''))) \<and>
   (is_SigningMethodHMAC (Method token) \<longrightarrow>
      RSAKeyTokenBackend_ProvideKey rb token =
        Inl (ErrUnexpectedSigningMethod ''RS'' (Header token ''alg'')))"
  by (cases "Method token")
     (simp_all add: SecretKeyTokenBackend_ProvideKey_def RSAKeyTokenBackend_ProvideKey_def)

theorem ProvideKey_rejects_other_family_witness:
  "\<not> is_SigningMethodHMAC (Method rs256_token_without_kid) \<and>
   SecretKeyTokenBackend_ProvideKey sample_secret_backend rs256_token_without_kid =
     Inl (ErrUnexpectedSigningMethod ''HS'' (Some (JString ''RS256''))) \<and>
   is_SigningMethodHMAC (Method (hs256_token_with_kid (JString ''k1''))) \<and>
   \<not> is_SigningMethodRSA (Method (hs256_token_with_kid (JString ''k1''))) \<and>
   RSAKeyTokenBackend_ProvideKey sample_backend (hs256_token_with_kid (JString ''k1'')) =
     Inl (ErrUnexpectedSigningMethod ''RS'' (Some (JString ''HS256'')))"
proof -
  have m1: "\<not> is_SigningMethodHMAC (Method rs256_token_without_kid)"
    by (simp add: rs256_token_without_kid_def)
  have m2: "is_SigningMethodHMAC (Method (hs256_token_with_kid (JString ''k1'')))"
    and m3: "\<not> is_SigningMethodRSA (Method (hs256_token_with_kid (JString ''k1'')))"
    by (simp_all add: hs256_token_with_kid_def)
  have a1: "Header rs256_token_without_kid ''alg'' = Some (JString ''RS256'')"
    by (simp add: rs256_token_without_kid_def)
  have a2: "Header (hs256_token_with_kid (JString ''k1'')) ''alg'' = Some (JString ''HS256'')"
    by (simp add: hs256_token_with_kid_def)
  from ProvideKey_rejects_other_family
         [of rs256_token_without_kid sample_secret_backend sample_backend] m1 a1
  have r1: "SecretKeyTokenBackend_ProvideKey sample_secret_backend rs256_token_without_kid =
     Inl (ErrUnexpectedSigningMethod ''HS'' (Some (JString ''RS256'')))" by simp
  from ProvideKey_rejects_other_family
         [of "hs256_token_with_kid (JString ''k1'')" sample_secret_backend sample_backend] m2 a2
  have r2: "RSAKeyTokenBackend_ProvideKey sample_backend (hs256_token_with_kid (JString ''k1'')) =
     Inl (ErrUnexpectedSigningMethod ''RS'' (Some (JString ''HS256'')))" by simp
  from m1 m2 m3 r1 r2 show ?thesis by simp
qed

text \<open>
  Claim C1, as the code has it. For a token whose signing method is RSA and whose header
  holds a string under \<open>kid\<close>, the RSA backend looks exactly that identifier up: a
  stored RSA key gives its public key, and an identifier that is absent from the store
  gives the unexpected-key-identifier error, whatever is stored under the default
  identifier. For an RSA token whose header holds no string under \<open>kid\<close> (no \<open>kid\<close>,
  or one that is not a string), the backend takes the key stored under the default
  identifier \<open>0\<close>, and fails with the no-key-found error when no RSA key is stored
  there.
\<close>

theorem RSAKeyTokenBackend_ProvideKey_lookup:
  assumes "is_SigningMethodRSA (Method token)"
  shows
  "(\<forall>kid. Header token ''kid'' = Some (JString kid) \<longrightarrow>
      (\<forall>key. secrets b kid = Some (RSAPublicKeyPtr key) \<longrightarrow>
         RSAKeyTokenBackend_ProvideKey b token = Inr (RSAPublicKeyPtr key)) \<and>
      (\<forall>key. secrets b kid = Some (RSAPrivateKeyPtr key) \<longrightarrow>
         RSAKeyTokenBackend_ProvideKey b token = Inr (RSAPublicKeyPtr (PublicKey key))) \<and>
      (secrets b kid = None \<longrightarrow> RSAKeyTokenBackend_ProvideKey b token = Inl ErrUnexpectedKID)) \<and>
   ((\<forall>kid. Header token ''kid'' \<noteq> Some (JString kid)) \<longrightarrow>
      (\<forall>key. secrets b defaultKeyID = Some (RSAPublicKeyPtr key) \<longrightarrow>
         RSAKeyTokenBackend_ProvideKey b token = Inr (RSAPublicKeyPtr key)) \<and>
      (\<forall>key. secrets b defaultKeyID = Some (RSAPrivateKeyPtr key) \<longrightarrow>
         RSAKeyTokenBackend_ProvideKey b token = Inr (RSAPublicKeyPtr (PublicKey key))) \<and>
      ((\<forall>key. secrets b defaultKeyID \<noteq> Some (RSAPublicKeyPtr key)) \<and>
       (\<forall>key. secrets b defaultKeyID \<noteq> Some (RSAPrivateKeyPtr key)) \<longrightarrow>
         RSAKeyTokenBackend_ProvideKey b token = Inl ErrNoRSAKeyFound))"
proof (intro conjI allI impI)
  fix kid key
  assume "Header token ''kid'' = Some (JString kid)" "secrets b kid = Some (RSAPublicKeyPtr key)"
  with assms show "RSAKeyTokenBackend_ProvideKey b token = Inr (RSAPublicKeyPtr key)"
    by (simp add: RSAKeyTokenBackend_ProvideKey_def)
next
  fix kid key
  assume "Header token ''kid'' = Some (JString kid)" "secrets b kid = Some (RSAPrivateKeyPtr key)"
  with assms show "RSAKeyTokenBackend_ProvideKey b token = Inr (RSAPublicKeyPtr (PublicKey key))"
    by (simp add: RSAKeyTokenBackend_ProvideKey_def)
next
  fix kid
  assume "Header token ''kid'' = Some (JString kid)" "secrets b kid = None"
  with assms show "RSAKeyTokenBackend_ProvideKey b token = Inl ErrUnexpectedKID"
    by (simp add: RSAKeyTokenBackend_ProvideKey_def)
next
  fix key
  assume "\<forall>kid. Header token ''kid'' \<noteq> Some (JString kid)"
    "secrets b defaultKeyID = Some (RSAPublicKeyPtr key)"
  with assms show "RSAKeyTokenBackend_ProvideKey b token = Inr (RSAPublicKeyPtr key)"
    by (simp add: RSAKeyTokenBackend_ProvideKey_def split: option.splits json.splits)
next
  fix key
  assume "\<forall>kid. Header token ''kid'' \<noteq> Some (JString kid)"
    "secrets b defaultKeyID = Some (RSAPrivateKeyPtr key)"
  with assms show "RSAKeyTokenBackend_ProvideKey b token = Inr (RSAPublicKeyPtr (PublicKey key))"
    by (simp add: RSAKeyTokenBackend_ProvideKey_def split: option.splits json.splits)
next
  assume nokid: "\<forall>kid. Header token ''kid'' \<noteq> Some (JString kid)"
    and "(\<forall>key. secrets b defaultKeyID \<noteq> Some (RSAPublicKeyPtr key)) \<and>
       (\<forall>key. secrets b defaultKeyID \<noteq> Some (RSAPrivateKeyPtr key))"
  then have sw: "\<And>v. secrets b defaultKeyID = Some v \<Longrightarrow> rsa_key_switch v = None"
    by (case_tac v) auto
  from assms nokid sw show "RSAKeyTokenBackend_ProvideKey b token = Inl ErrNoRSAKeyFound"
    by (auto simp: RSAKeyTokenBackend_ProvideKey_def split: option.splits json.splits)
qed

theorem RSAKeyTokenBackend_ProvideKey_lookup_witness:
  "is_SigningMethodRSA (Method (rs256_token_with_kid (JString ''k1''))) \<and>
   Header (rs256_token_with_kid (JString ''k1'')) ''kid'' = Some (JString ''k1'') \<and>
   secrets sample_backend ''k1'' = Some (RSAPrivateKeyPtr sample_private_key) \<and>
   RSAKeyTokenBackend_ProvideKey sample_backend (rs256_token_with_kid (JString ''k1'')) =
     Inr (RSAPublicKeyPtr (PublicKey sample_private_key)) \<and>
   is_SigningMethodRSA (Method (rs256_token_with_kid (JString ''k9''))) \<and>
   Header (rs256_token_with_kid (JString ''k9'')) ''kid'' = Some (JString ''k9'') \<and>
   secrets sample_backend ''k9'' = None \<and>
   secrets sample_backend defaultKeyID = Some (RSAPublicKeyPtr sample_default_key) \<and>
   RSAKeyTokenBackend_ProvideKey sample_backend (rs256_token_with_kid (JString ''k9'')) =
     Inl ErrUnexpectedKID \<and>
   is_SigningMethodRSA (Method rs256_token_without_kid) \<and>
   Header rs256_token_without_kid ''kid'' = None \<and>
   RSAKeyTokenBackend_ProvideKey sample_backend rs256_token_without_kid =
     Inr (RSAPublicKeyPtr sample_default_key) \<and>
   secrets empty_backend defaultKeyID = None \<and>
   RSAKeyTokenBackend_ProvideKey empty_backend rs256_token_without_kid = Inl ErrNoRSAKeyFound"
proof -
  have m1: "is_SigningMethodRSA (Method (rs256_token_with_kid (JString ''k1'')))"
    and h1: "Header (rs256_token_with_kid (JString ''k1'')) ''kid'' = Some (JString ''k1'')"
    and m2: "is_SigningMethodRSA (Method (rs256_token_with_kid (JString ''k9'')))"
    and h2: "Header (rs256_token_with_kid (JString ''k9'')) ''kid'' = Some (JString ''k9'')"
    by (simp_all add: rs256_token_with_kid_def)
  have m3: "is_SigningMethodRSA (Method rs256_token_without_kid)"
    and h3: "Header rs256_token_without_kid ''kid'' = None"
    by (simp_all add: rs256_token_without_kid_def)
  have s1: "secrets sample_backend ''k1'' = Some (RSAPrivateKeyPtr sample_private_key)"
    and s2: "secrets sample_backend ''k9'' = None"
    and s3: "secrets sample_backend defaultKeyID = Some (RSAPublicKeyPtr sample_default_key)"
    by (simp_all add: sample_backend_def NewRSAKeyTokenBackend_def defaultKeyID_def)
  have s4: "secrets empty_backend defaultKeyID = None"
    by (simp add: empty_backend_def NewRSAKeyTokenBackend_def)
  from RSAKeyTokenBackend_ProvideKey_lookup [OF m1, of sample_backend] h1 s1
  have r1: "RSAKeyTokenBackend_ProvideKey sample_backend (rs256_token_with_kid (JString ''k1'')) =
     Inr (RSAPublicKeyPtr (PublicKey sample_private_key))" by blast
  from RSAKeyTokenBackend_ProvideKey_lookup [OF m2, of sample_backend] h2 s2
  have r2: "RSAKeyTokenBackend_ProvideKey sample_backend (rs256_token_with_kid (JString ''k9'')) =
     Inl ErrUnexpectedKID" by blast
  from h3 have n3: "\<forall>kid. Header rs256_token_without_kid ''kid'' \<noteq> Some (JString kid)" by simp
  from RSAKeyTokenBackend_ProvideKey_lookup [OF m3, of sample_backend] n3 s3
  have r3: "RSAKeyTokenBackend_ProvideKey sample_backend rs256_token_without_kid =
     Inr (RSAPublicKeyPtr sample_default_key)" by blast
  from s4 have n4: "(\<forall>key. secrets empty_backend defaultKeyID \<noteq> Some (RSAPublicKeyPtr key)) \<and>
       (\<forall>key. secrets empty_backend defaultKeyID \<noteq> Some (RSAPrivateKeyPtr key))" by simp
  from RSAKeyTokenBackend_ProvideKey_lookup [OF m3, of empty_backend] n3 n4
  have r4: "RSAKeyTokenBackend_ProvideKey empty_backend rs256_token_without_kid = Inl ErrNoRSAKeyFound"
    by blast
  from m1 h1 s1 r1 m2 h2 s2 s3 r2 m3 h3 r3 s4 r4 show ?thesis by simp
qed

text \<open>
  The claim speaks of every token whose header carries a \<open>kid\<close>. A header whose
  \<open>kid\<close> is the number 7 carries one, no key is stored for it, and the backend answers
  with the default key. An HMAC token with an unknown \<open>kid\<close> is refused for its signing
  method, not for its key identifier.
\<close>

theorem kid_fallback_counterexample:
  "Header (rs256_token_with_kid (JNumber 7)) ''kid'' = Some (JNumber 7) \<and>
   secrets sample_backend defaultKeyID = Some (RSAPublicKeyPtr sample_default_key) \<and>
   RSAKeyTokenBackend_ProvideKey sample_backend (rs256_token_with_kid (JNumber 7)) =
     Inr (RSAPublicKeyPtr sample_default_key) \<and>
   RSAKeyTokenBackend_ProvideKey sample_backend (rs256_token_with_kid (JNumber 7)) \<noteq>
     Inl ErrUnexpectedKID \<and>
   Header (hs256_token_with_kid (JString ''k9'')) ''kid'' = Some (JString ''k9'') \<and>
   secrets sample_backend ''k9'' = None \<and>
   RSAKeyTokenBackend_ProvideKey sample_backend (hs256_token_with_kid (JString ''k9'')) =
     Inl (ErrUnexpectedSigningMethod ''RS'' (Some (JString ''HS256''))) \<and>
   RSAKeyTokenBackend_ProvideKey sample_backend (hs256_token_with_kid (JString ''k9'')) \<noteq>
     Inl ErrUnexpectedKID"
  by (simp add: RSAKeyTokenBackend_ProvideKey_def rs256_token_with_kid_def
        hs256_token_with_kid_def sample_backend_def NewRSAKeyTokenBackend_def defaultKeyID_def)

text \<open>
  Claim C9. The RSA backend never hands out private key material: whenever it succeeds,
  the value is an RSA public key, either a stored public key or the public part of a
  stored private key; and a stored value of any other type under the identifier of the
  token yields an error, not a key.
\<close>

theorem RSAKeyTokenBackend_ProvideKey_public_only:
  "(\<forall>v. RSAKeyTokenBackend_ProvideKey b token = Inr v \<longrightarrow>
      (\<exists>pub kid. v = RSAPublicKeyPtr pub \<and>
         (secrets b kid = Some (RSAPublicKeyPtr pub) \<or>
          (\<exists>priv. secrets b kid = Some (RSAPrivateKeyPtr priv) \<and> pub = PublicKey priv)))) \<and>
   (\<forall>kid val. Header token ''kid'' = Some (JString kid) \<longrightarrow> secrets b kid = Some val \<longrightarrow>
      (\<forall>pub. val \<noteq> RSAPublicKeyPtr pub) \<longrightarrow> (\<forall>priv. val \<noteq> RSAPrivateKeyPtr priv) \<longrightarrow>
      (\<exists>e. RSAKeyTokenBackend_ProvideKey b token = Inl e))"
proof (intro conjI allI impI)
  fix v
  assume ok: "RSAKeyTokenBackend_ProvideKey b token = Inr v"
  have sw: "\<And>val key. rsa_key_switch val = Some key \<Longrightarrow>
      \<exists>pub. key = RSAPublicKeyPtr pub \<and>
         (val = RSAPublicKeyPtr pub \<or> (\<exists>priv. val = RSAPrivateKeyPtr priv \<and> pub = PublicKey priv))"
    by (case_tac val) auto
  from ok obtain k val where "secrets b k = Some val" "rsa_key_switch val = Some v"
    by (auto simp: RSAKeyTokenBackend_ProvideKey_def split: if_splits option.splits json.splits)
  with sw [of val v] show "\<exists>pub kid. v = RSAPublicKeyPtr pub \<and>
         (secrets b kid = Some (RSAPublicKeyPtr pub) \<or>
          (\<exists>priv. secrets b kid = Some (RSAPrivateKeyPtr priv) \<and> pub = PublicKey priv))"
    by blast
next
  fix kid val
  assume "Header token ''kid'' = Some (JString kid)" "secrets b kid = Some val"
    "\<forall>pub. val \<noteq> RSAPublicKeyPtr pub" "\<forall>priv. val \<noteq> RSAPrivateKeyPtr priv"
  moreover from this have "rsa_key_switch val = None" by (cases val) auto
  ultimately show "\<exists>e. RSAKeyTokenBackend_ProvideKey b token = Inl e"
    by (simp add: RSAKeyTokenBackend_ProvideKey_def)
qed

theorem RSAKeyTokenBackend_ProvideKey_public_only_witness:
  "RSAKeyTokenBackend_ProvideKey sample_backend (rs256_token_with_kid (JString ''k1'')) =
     Inr (RSAPublicKeyPtr (PublicKey sample_private_key)) \<and>
   (\<exists>pub kid. RSAPublicKeyPtr (PublicKey sample_private_key) = RSAPublicKeyPtr pub \<and>
      (secrets sample_backend kid = Some (RSAPublicKeyPtr pub) \<or>
       (\<exists>priv. secrets sample_backend kid = Some (RSAPrivateKeyPtr priv) \<and> pub = PublicKey priv))) \<and>
   Header (rs256_token_with_kid (JString ''k2'')) ''kid'' = Some (JString ''k2'') \<and>
   secrets sample_backend ''k2'' = Some (OtherValue ''ecdsa'') \<and>
   (\<exists>e. RSAKeyTokenBackend_ProvideKey sample_backend (rs256_token_with_kid (JString ''k2'')) = Inl e)"
proof -
  have r1: "RSAKeyTokenBackend_ProvideKey sample_backend (rs256_token_with_kid (JString ''k1'')) =
     Inr (RSAPublicKeyPtr (PublicKey sample_private_key))"
    by (simp add: RSAKeyTokenBackend_ProvideKey_def rs256_token_with_kid_def
          sample_backend_def NewRSAKeyTokenBackend_def)
  have h2: "Header (rs256_token_with_kid (JString ''k2'')) ''kid'' = Some (JString ''k2'')"
    by (simp add: rs256_token_with_kid_def)
  have s2: "secrets sample_backend ''k2'' = Some (OtherValue ''ecdsa'')"
    by (simp add: sample_backend_def NewRSAKeyTokenBackend_def)
  note inst1 = RSAKeyTokenBackend_ProvideKey_public_only
    [of sample_backend "rs256_token_with_kid (JString ''k1'')"]
  note inst2 = RSAKeyTokenBackend_ProvideKey_public_only
    [of sample_backend "rs256_token_with_kid (JString ''k2'')"]
  from inst1 r1 have c1: "\<exists>pub kid. RSAPublicKeyPtr (PublicKey sample_private_key) = RSAPublicKeyPtr pub \<and>
      (secrets sample_backend kid = Some (RSAPublicKeyPtr pub) \<or>
       (\<exists>priv. secrets sample_backend kid = Some (RSAPrivateKeyPtr priv) \<and> pub = PublicKey priv))"
    by blast
  from inst2 h2 s2 have c2:
    "\<exists>e. RSAKeyTokenBackend_ProvideKey sample_backend (rs256_token_with_kid (JString ''k2'')) = Inl e"
    by blast
  from r1 c1 h2 s2 c2 show ?thesis by blast
qed

section \<open>Properties of the key set import\<close>

text \<open>A key that fails validation makes the loop over the keys end with the invalid-key error.\<close>

lemma range_keys_invalid:
  "k \<in> set keys \<Longrightarrow> Validate env k \<noteq> None \<Longrightarrow>
   \<exists>k' err. k' \<in> set keys \<and> Validate env k' = Some err \<and>
     range_keys env keys secretsMap = Inl (ErrBackendOauthJwksInvalidKey err)"
proof (induction keys arbitrary: secretsMap)
  case Nil
  then show ?case by simp
next
  case (Cons a keys)
  show ?case
  proof (cases "Validate env a")
    case (Some err)
    then show ?thesis by auto
  next
    case None
    with Cons.prems have "k \<in> set keys" by auto
    from Cons.IH [OF this Cons.prems(2), of "secretsMap(KeyID env a \<mapsto> GetPublicKey env a)"]
    obtain k' err where "k' \<in> set keys" "Validate env k' = Some err"
      "range_keys env keys (secretsMap(KeyID env a \<mapsto> GetPublicKey env a)) =
         Inl (ErrBackendOauthJwksInvalidKey err)" by blast
    with None show ?thesis by auto
  qed
qed

text \<open>
  Claim C3. The import is all or nothing: when the document delivers a list of keys of
  which at least one fails validation, \<open>FetchKeysURL\<close> returns the invalid-key error,
  carrying the error of a key of the list, and no store, however many of the other keys
  are valid.
\<close>

theorem FetchKeysURL_all_or_nothing:
  assumes "http_Get env jwks_uri = Inr resp"
    and "ioutil_ReadAll env resp = Inr respBody"
    and "json_Unmarshal_map env respBody = Inr data"
    and "data ''keys'' = Some keys_field"
    and "json_Marshal env keys_field = Inr jwksJSON"
    and "json_Unmarshal_keys env jwksJSON = Inr keys"
    and "k \<in> set keys"
    and "Validate env k \<noteq> None"
  shows "\<exists>k' err. k' \<in> set keys \<and> Validate env k' = Some err \<and>
           FetchKeysURL env jwks_uri = Inl (ErrBackendOauthJwksInvalidKey err)"
proof -
  from assms(7) have "\<not> length keys < 1" by (cases keys) auto
  with assms(1-6) have
    "FetchKeysURL env jwks_uri = range_keys env keys Map.empty"
    by (simp add: FetchKeysURL_def)
  with range_keys_invalid [OF assms(7,8), of Map.empty] show ?thesis by simp
qed

theorem FetchKeysURL_all_or_nothing_witness:
  "http_Get sample_jwks_env ''two-valid-one-malformed'' = Inr ''two-valid-one-malformed'' \<and>
   ioutil_ReadAll sample_jwks_env ''two-valid-one-malformed'' = Inr ''two-valid-one-malformed'' \<and>
   json_Unmarshal_keys sample_jwks_env ''two-valid-one-malformed'' =
     Inr [(''a'', True), (''b'', True), ([], False)] \<and>
   Validate sample_jwks_env (''a'', True) = None \<and>
   Validate sample_jwks_env (''b'', True) = None \<and>
   Validate sample_jwks_env ([], False) = Some (ExternalError ''malformed key'') \<and>
   FetchKeysURL sample_jwks_env ''two-valid-one-malformed'' =
     Inl (ErrBackendOauthJwksInvalidKey (ExternalError ''malformed key''))"
proof -
  let ?u = "''two-valid-one-malformed''"
  have g: "http_Get sample_jwks_env ?u = Inr ?u"
    and r: "ioutil_ReadAll sample_jwks_env ?u = Inr ?u"
    and u: "json_Unmarshal_map sample_jwks_env ?u = Inr [''keys'' \<mapsto> JString ?u]"
    and m: "json_Marshal sample_jwks_env (JString ?u) = Inr ?u"
    and ks: "json_Unmarshal_keys sample_jwks_env ?u = Inr [(''a'', True), (''b'', True), ([], False)]"
    and v1: "Validate sample_jwks_env (''a'', True) = None"
    and v2: "Validate sample_jwks_env (''b'', True) = None"
    and v3: "Validate sample_jwks_env ([], False) = Some (ExternalError ''malformed key'')"
    by (simp_all add: sample_jwks_env_def)
  have f: "[''keys'' \<mapsto> JString ?u] ''keys'' = Some (JString ?u)" by simp
  have mem: "([], False) \<in> set [(''a'', True), (''b'', True), ([], False)]" by simp
  from v3 have bad: "Validate sample_jwks_env ([], False) \<noteq> None" by simp
  from FetchKeysURL_all_or_nothing [OF g r u f m ks mem bad]
  obtain k' err where k': "k' \<in> set [(''a'', True), (''b'', True), ([], False)]"
    and e: "Validate sample_jwks_env k' = Some err"
    and res: "FetchKeysURL sample_jwks_env ?u = Inl (ErrBackendOauthJwksInvalidKey err)"
    by blast
  from k' e v1 v2 v3 have "err = ExternalError ''malformed key''" by auto
  with res g r ks v1 v2 v3 show ?thesis by simp
qed

text \<open>
  Claim C7. The import refuses structurally empty inputs: a document without the field
  \<open>keys\<close> gives the keys-field-not-found error, and a document whose field \<open>keys\<close>
  decodes to an empty list of keys gives the no-keys error; neither gives a store.
\<close>

theorem FetchKeysURL_empty_input:
  assumes "http_Get env jwks_uri = Inr resp"
    and "ioutil_ReadAll env resp = Inr respBody"
    and "json_Unmarshal_map env respBody = Inr data"
  shows "(data ''keys'' = None \<longrightarrow>
            FetchKeysURL env jwks_uri = Inl ErrBackendOauthJwksResponseKeysNotFound) \<and>
         (\<forall>keys_field jwksJSON.
            data ''keys'' = Some keys_field \<longrightarrow>
            json_Marshal env keys_field = Inr jwksJSON \<longrightarrow>
            json_Unmarshal_keys env jwksJSON = Inr [] \<longrightarrow>
            FetchKeysURL env jwks_uri = Inl ErrBackendOauthJwksKeysNotFound)"
  using assms by (simp add: FetchKeysURL_def)

theorem FetchKeysURL_empty_input_witness:
  "http_Get sample_jwks_env ''no-keys'' = Inr ''no-keys'' \<and>
   ioutil_ReadAll sample_jwks_env ''no-keys'' = Inr ''no-keys'' \<and>
   FetchKeysURL sample_jwks_env ''no-keys'' = Inl ErrBackendOauthJwksResponseKeysNotFound \<and>
   http_Get sample_jwks_env ''empty'' = Inr ''empty'' \<and>
   ioutil_ReadAll sample_jwks_env ''empty'' = Inr ''empty'' \<and>
   json_Marshal sample_jwks_env (JString ''empty'') = Inr ''empty'' \<and>
   json_Unmarshal_keys sample_jwks_env ''empty'' = Inr [] \<and>
   FetchKeysURL sample_jwks_env ''empty'' = Inl ErrBackendOauthJwksKeysNotFound"
proof -
  have g1: "http_Get sample_jwks_env ''no-keys'' = Inr ''no-keys''"
    and r1: "ioutil_ReadAll sample_jwks_env ''no-keys'' = Inr ''no-keys''"
    and u1: "json_Unmarshal_map sample_jwks_env ''no-keys'' = Inr Map.empty"
    and g2: "http_Get sample_jwks_env ''empty'' = Inr ''empty''"
    and r2: "ioutil_ReadAll sample_jwks_env ''empty'' = Inr ''empty''"
    and u2: "json_Unmarshal_map sample_jwks_env ''empty'' = Inr [''keys'' \<mapsto> JString ''empty'']"
    and m2: "json_Marshal sample_jwks_env (JString ''empty'') = Inr ''empty''"
    and k2: "json_Unmarshal_keys sample_jwks_env ''empty'' = Inr []"
    by (simp_all add: sample_jwks_env_def)
  from FetchKeysURL_empty_input [OF g1 r1 u1]
  have c1: "FetchKeysURL sample_jwks_env ''no-keys'' = Inl ErrBackendOauthJwksResponseKeysNotFound"
    by simp
  from FetchKeysURL_empty_input [OF g2 r2 u2] m2 k2
  have c2: "FetchKeysURL sample_jwks_env ''empty'' = Inl ErrBackendOauthJwksKeysNotFound"
    by simp
  from g1 r1 c1 g2 r2 m2 k2 c2 show ?thesis by simp
qed

section \<open>Properties of the token validator options\<close>

text \<open>
  Claim C8. \<open>Clone\<close> on an allocated options object returns a new object, at an address
  different from the original's, whose five validation flags equal the original's and
  whose metadata is a new, empty map: its address was not allocated before the call, so
  it differs from the original's metadata. The call leaves the original object and every
  map that existed unchanged, and so does any later assignment to the clone's metadata.
\<close>

theorem Clone_copies_flags_with_fresh_metadata:
  assumes alloc: "a < length (options_heap h)"
    and wf: "\<forall>m. TokenValidatorOptions.Metadata (options_heap h ! a) = Some m \<longrightarrow> m < length (maps_heap h)"
  shows "\<exists>c h' m'.
     Clone (Some a) h = Inr (c, h') \<and>
     c \<noteq> a \<and> c < length (options_heap h') \<and>
     ValidateSourceAddress (options_heap h' ! c) = ValidateSourceAddress (options_heap h ! a) \<and>
     TokenValidatorOptions.ValidateBearerHeader (options_heap h' ! c) =
       TokenValidatorOptions.ValidateBearerHeader (options_heap h ! a) \<and>
     TokenValidatorOptions.ValidateMethodPath (options_heap h' ! c) =
       TokenValidatorOptions.ValidateMethodPath (options_heap h ! a) \<and>
     TokenValidatorOptions.ValidateAccessListPathClaim (options_heap h' ! c) =
       TokenValidatorOptions.ValidateAccessListPathClaim (options_heap h ! a) \<and>
     ValidateAllowMatchAll (options_heap h' ! c) = ValidateAllowMatchAll (options_heap h ! a) \<and>
     Metadata (options_heap h' ! c) = Some m' \<and>
     m' < length (maps_heap h') \<and> \<not> m' < length (maps_heap h) \<and>
     maps_heap h' ! m' = Map.empty \<and>
     Metadata (options_heap h ! a) \<noteq> Some m' \<and>
     options_heap h' ! a = options_heap h ! a \<and>
     take (length (options_heap h)) (options_heap h') = options_heap h \<and>
     take (length (maps_heap h)) (maps_heap h') = maps_heap h \<and>
     (\<forall>k v. options_heap (map_assign m' k v h') ! a = options_heap h ! a \<and>
            take (length (maps_heap h)) (maps_heap (map_assign m' k v h')) = maps_heap h \<and>
            maps_heap (map_assign m' k v h') ! m' = [k \<mapsto> v])"
proof -
  let ?m = "length (maps_heap h)"
  let ?c = "length (options_heap h)"
  let ?src = "options_heap h ! a"
  let ?cloned = "\<lparr>ValidateSourceAddress = ValidateSourceAddress ?src,
                    SourceAddress = [],
                    ValidateBearerHeader = TokenValidatorOptions.ValidateBearerHeader ?src,
                    ValidateMethodPath = TokenValidatorOptions.ValidateMethodPath ?src,
                    ValidateAccessListPathClaim = TokenValidatorOptions.ValidateAccessListPathClaim ?src,
                    ValidateAllowMatchAll = ValidateAllowMatchAll ?src,
                    Metadata = Some ?m,
                    Replacer = None,
                    Logger = Logger ?src\<rparr>"
  let ?h' = "h\<lparr>maps_heap := maps_heap h @ [Map.empty], options_heap := options_heap h @ [?cloned]\<rparr>"
  from alloc have res: "Clone (Some a) h = Inr (?c, ?h')"
    by (simp add: Clone_def make_map_def new_options_def Let_def)
  from wf have fresh: "Metadata ?src \<noteq> Some ?m" by auto
  from alloc have same: "options_heap ?h' ! a = ?src" by (simp add: nth_append)
  have mut: "\<forall>k v. options_heap (map_assign ?m k v ?h') ! a = options_heap h ! a \<and>
            take (length (maps_heap h)) (maps_heap (map_assign ?m k v ?h')) = maps_heap h \<and>
            maps_heap (map_assign ?m k v ?h') ! ?m = [k \<mapsto> v]"
    using alloc by (simp add: map_assign_def nth_append)
  from alloc res fresh same mut show ?thesis
    by (intro exI [of _ ?c] exI [of _ ?h'] exI [of _ ?m]) (simp add: nth_append)
qed

theorem Clone_copies_flags_with_fresh_metadata_witness:
  "(0::nat) < length (options_heap sample_heap) \<and>
   Metadata (options_heap sample_heap ! 0) = Some 0 \<and>
   (0::nat) < length (maps_heap sample_heap) \<and>
   (\<exists>c h' m'. Clone (Some 0) sample_heap = Inr (c, h') \<and> c \<noteq> 0 \<and>
      Metadata (options_heap h' ! c) = Some m' \<and> m' \<noteq> 0 \<and>
      maps_heap h' ! m' = Map.empty \<and>
      maps_heap (map_assign m' ''user'' (JString ''bob'') h') ! 0 = [''user'' \<mapsto> JString ''alice''])"
proof -
  have a: "(0::nat) < length (options_heap sample_heap)"
    and md: "Metadata (options_heap sample_heap ! 0) = Some 0"
    and ml: "(0::nat) < length (maps_heap sample_heap)"
    and m0: "maps_heap sample_heap = [[''user'' \<mapsto> JString ''alice'']]"
    by (simp_all add: sample_heap_def)
  from md ml have wf: "\<forall>m. TokenValidatorOptions.Metadata (options_heap sample_heap ! 0) = Some m \<longrightarrow>
      m < length (maps_heap sample_heap)" by simp
  from Clone_copies_flags_with_fresh_metadata [OF a wf]
  obtain c h' m' where r: "Clone (Some 0) sample_heap = Inr (c, h')" "c \<noteq> 0"
    "Metadata (options_heap h' ! c) = Some m'"
    "\<not> m' < length (maps_heap sample_heap)" "maps_heap h' ! m' = Map.empty"
    and mut: "\<forall>k v. take (length (maps_heap sample_heap)) (maps_heap (map_assign m' k v h')) =
        maps_heap sample_heap"
    by blast
  from r(4) ml have ne: "m' \<noteq> 0" by linarith
  from mut have "take (length (maps_heap sample_heap))
      (maps_heap (map_assign m' ''user'' (JString ''bob'') h')) = maps_heap sample_heap" by blast
  then have "take 1 (maps_heap (map_assign m' ''user'' (JString ''bob'') h')) =
      [[''user'' \<mapsto> JString ''alice'']]" by (simp add: m0)
  then have old: "maps_heap (map_assign m' ''user'' (JString ''bob'') h') ! 0 =
      [''user'' \<mapsto> JString ''alice'']"
    by (metis One_nat_def nth_Cons_0 nth_take zero_less_one)
  from a md ml r ne old show ?thesis by blast
qed

section \<open>Properties of the Caddyfile parser\<close>

subsection \<open>What the loops do to the access list and to the default\<close>








text \<open>The equations that run the parser and the methods of an entry on a concrete input.\<close>

lemmas spec_env_simps =
  spec_env_def spec_NewAccessListEntry_def spec_Allow_def spec_Deny_def spec_SetClaim_def
  spec_AddValue_def spec_AddMethod_def spec_SetPath_def

lemmas parser_simps =
  parseCaddyfileTokenValidator_def parse_directive_def range_args_body_def
  initial_AuthProvider_def isSwitchArg_def isEnabledArg_def Let_def

subsection \<open>The default policy\<close>



subsection \<open>Rules without values\<close>

text \<open>
  Claim C5 says that every rule the parser accepts has a claim and at least one value.
  The parser counts the arguments of the directive, not the values among them: it
  accepts the rule \<open>allow roles with get\<close>, whose second argument is a keyword, and
  appends an entry for the claim \<open>roles\<close> with the method \<open>get\<close> and no value.
\<close>

theorem rule_without_values_accepted:
  "parseCaddyfileTokenValidator spec_env [[sample_rule_without_values]] =
     Inr (initial_AuthProvider
            \<lparr>AccessList :=
               [\<lparr>Action = ''allow'', Values = [], Claim = ''roles'', Methods = [''get''],
                 Path = []\<rparr>],
             ValidateMethodPath := True\<rparr>)"
  by (simp add: sample_rule_without_values_def parser_simps spec_env_simps)

subsection \<open>The path of a rule\<close>



end
